theory Spec2Isabelle
  imports Complex_Main "HOL-Library.Char_ord" "HOL-Library.List_Lexorder"
begin

section \<open>Analytics helpers (analytics route)\<close>


subsection \<open>Array.prototype.sort with a comparator\<close>




subsection \<open>calculateMedian\<close>



subsection \<open>calculateCurrentStreak\<close>




subsection \<open>Score distribution of the assessment analytics\<close>







section \<open>Documents, identifiers and request validation\<close>

text \<open>
  Documents are records with the fields the routes read and write; a collection is the
  list of its documents. An ObjectId is modelled as the string that the routes compare
  (\<open>toString()\<close>, \<open>equals\<close>, \<open>$in\<close>, \<open>includes\<close>): ids are equal when their strings are,
  so two spellings of one ObjectId that differ in letter case are two ids here. The
  schemas of the models are not among the sources: the fields are those the routes use.
\<close>

type_synonym oid = string

text \<open>A route answers with a status code and either an error message or a payload.\<close>

datatype 'a response = Failure nat string | Success nat 'a

text \<open>\<open>isMongoId\<close> of express-validator: 24 hexadecimal digits.\<close>

definition is_hex :: "char \<Rightarrow> bool" where
  "is_hex c = (c \<in> set ''0123456789abcdefABCDEF'')"

definition isMongoId :: "string \<Rightarrow> bool" where
  "isMongoId s = (length s = 24 \<and> list_all is_hex s)"

text \<open>\<open>trim()\<close> and \<open>toLowerCase()\<close> on ASCII strings.\<close>

definition is_space :: "char \<Rightarrow> bool" where
  "is_space c = (c \<in> set [CHR '' '', CHR 0x09, CHR 0x0A, CHR 0x0B, CHR 0x0C, CHR 0x0D])"

definition trim :: "string \<Rightarrow> string" where
  "trim s = rev (dropWhile is_space (rev (dropWhile is_space s)))"

definition toLowerCase :: "string \<Rightarrow> string" where
  "toLowerCase s =
     map (\<lambda>c. let n = (of_char c :: nat) in if 65 \<le> n \<and> n \<le> 90 then char_of (n + 32) else c) s"

text \<open>A value of the request is truthy when it is present and not the empty string.\<close>

definition truthy :: "string option \<Rightarrow> bool" where
  "truthy v = (case v of None \<Rightarrow> False | Some s \<Rightarrow> s \<noteq> [])"

text \<open>
  The authenticated user, as \<open>User.findById(req.user.id).populate('role')\<close> loads it:
  \<open>u_role\<close> is \<open>user.role.name\<close>.
\<close>

record user =
  u_id :: oid
  u_role :: string
  u_department :: "oid option"
  u_groups :: "oid list"

record department =
  dep_id :: oid
  dep_isActive :: bool

record group =
  g_id :: oid
  g_department :: oid
  g_isActive :: bool
  g_teacher :: oid



record module =
  m_id :: oid
  m_title :: string
  m_description :: "string option"
  m_department :: oid
  m_groups :: "oid list"
  m_createdBy :: oid
  m_difficulty :: string
  m_estimatedHours :: "int option"
  m_tags :: "string list"
  m_prerequisites :: "oid list"
  m_questions :: "oid list"
  m_notes :: "oid list"
  m_sortOrder :: int
  m_isActive :: bool
  m_createdAt :: int

text \<open>
  \<open>.limit(limit * 1).skip((page - 1) * limit)\<close> on a sorted cursor: the database rejects
  a negative skip (the route answers 500), reads a limit of 0 as no limit and a negative
  limit as its absolute value.
\<close>

definition mongo_page :: "int \<Rightarrow> int \<Rightarrow> 'a list \<Rightarrow> 'a list" where
  "mongo_page skip n xs =
     (if n = 0 then drop (nat skip) xs else take (nat \<bar>n\<bar>) (drop (nat skip) xs))"

section \<open>Module routes\<close>

subsection \<open>checkCircularDependency\<close>

text \<open>
  \<^verbatim>\<open>
  async function checkCircularDependency(departmentId, moduleIds) {
    const visited = new Set();
    const recursionStack = new Set();
    function hasCycle(currentModuleId) {
      if (recursionStack.has(currentModuleId)) { return true; }
      if (visited.has(currentModuleId)) { return false; }
      visited.add(currentModuleId);
      recursionStack.add(currentModuleId);
      const currentModule = modules.find(m => m._id.toString() === currentModuleId.toString());
      if (currentModule && currentModule.prerequisites) {
        for (const prereqId of currentModule.prerequisites) {
          if (hasCycle(prereqId.toString())) { return true; }
        }
      }
      recursionStack.delete(currentModuleId);
      return false;
    }
    const modules = await Module.find({
      _id: { $in: moduleIds }, department: departmentId }).select('prerequisites');
    for (const moduleId of moduleIds) {
      if (hasCycle(moduleId.toString())) { return true; }
    }
    return false;
  }
  \<close>
  The two sets are threaded through the calls as a state. \<open>hasCycle_each\<close> is the
  \<open>for\<close> loop that returns at the first \<open>true\<close>; the function has two such loops of the
  same shape (over the prerequisites and over \<open>moduleIds\<close>).
\<close>

record dfs_state =
  visited :: "oid set"
  recursionStack :: "oid set"

function (domintros)
  hasCycle :: "module list \<Rightarrow> dfs_state \<Rightarrow> oid \<Rightarrow> bool \<times> dfs_state" and
  hasCycle_each :: "module list \<Rightarrow> dfs_state \<Rightarrow> oid list \<Rightarrow> bool \<times> dfs_state"
where
  "hasCycle modules st currentModuleId =
     (if currentModuleId \<in> recursionStack st then (True, st)
      else if currentModuleId \<in> visited st then (False, st)
      else
        let st1 = st\<lparr>visited := insert currentModuleId (visited st),
                     recursionStack := insert currentModuleId (recursionStack st)\<rparr>
        in case find (\<lambda>m. m_id m = currentModuleId) modules of
             None \<Rightarrow> (False, st1\<lparr>recursionStack := recursionStack st1 - {currentModuleId}\<rparr>)
           | Some currentModule \<Rightarrow>
               (case hasCycle_each modules st1 (m_prerequisites currentModule) of
                  (True, st2) \<Rightarrow> (True, st2)
                | (False, st2) \<Rightarrow>
                    (False, st2\<lparr>recursionStack := recursionStack st2 - {currentModuleId}\<rparr>)))"
| "hasCycle_each modules st [] = (False, st)"
| "hasCycle_each modules st (prereqId # rest) =
     (case hasCycle modules st prereqId of
        (True, st') \<Rightarrow> (True, st')
      | (False, st') \<Rightarrow> hasCycle_each modules st' rest)"
  by pat_completeness auto

text \<open>
  Termination: a call that goes on to the prerequisites has just added a loaded module to
  \<open>visited\<close>, and no call removes anything from \<open>visited\<close>.
\<close>

lemma visited_mono:
  "hasCycle_hasCycle_each_dom (Inl (modules, st, c)) \<Longrightarrow>
     visited st \<subseteq> visited (snd (hasCycle modules st c))"
  "hasCycle_hasCycle_each_dom (Inr (modules, st, ps)) \<Longrightarrow>
     visited st \<subseteq> visited (snd (hasCycle_each modules st ps))"
proof (induction modules st c and modules st ps rule: hasCycle_hasCycle_each.pinduct)
  case (1 modules st c)
  let ?st1 = "st\<lparr>visited := insert c (visited st),
                  recursionStack := insert c (recursionStack st)\<rparr>"
  note eq = hasCycle.psimps [OF "1.hyps"]
  show ?case
  proof (cases "c \<in> recursionStack st \<or> c \<in> visited st")
    case True
    then show ?thesis by (subst eq) auto
  next
    case False
    then have fresh: "c \<notin> recursionStack st" "c \<notin> visited st" by simp_all
    show ?thesis
    proof (cases "find (\<lambda>m. m_id m = c) modules")
      case None
      then show ?thesis using fresh by (subst eq) auto
    next
      case (Some m)
      from "1.IH" [OF fresh refl Some]
      have "visited ?st1 \<subseteq> visited (snd (hasCycle_each modules ?st1 (m_prerequisites m)))" .
      then have sub: "visited st \<subseteq> visited (snd (hasCycle_each modules ?st1 (m_prerequisites m)))"
        by auto
      show ?thesis
      proof (cases "hasCycle_each modules ?st1 (m_prerequisites m)")
        case (Pair b st2)
        with sub have "visited st \<subseteq> visited st2" by simp
        then show ?thesis using fresh Some Pair by (subst eq) (cases b; simp)
      qed
    qed
  qed
next
  case (2 modules st)
  then show ?case by (simp add: hasCycle_each.psimps)
next
  case (3 modules st p rest)
  note eq = hasCycle_each.psimps(2) [OF "3.hyps"]
  show ?case
  proof (cases "hasCycle modules st p")
    case (Pair b st')
    from "3.IH"(1) Pair have a: "visited st \<subseteq> visited st'" by simp
    show ?thesis
    proof (cases b)
      case True
      then show ?thesis using a Pair by (subst eq) simp
    next
      case False
      from "3.IH"(2) [of b st'] Pair False
      have "visited st' \<subseteq> visited (snd (hasCycle_each modules st' rest))" by simp
      with a show ?thesis using Pair False by (subst eq) auto
    qed
  qed
qed

definition dfs_measure ::
  "(module list \<times> dfs_state \<times> oid) + (module list \<times> dfs_state \<times> oid list) \<Rightarrow> nat \<times> nat" where
  "dfs_measure x =
     (case x of
        Inl (ms, st, c) \<Rightarrow> (card (set (map m_id ms) - visited st), 0)
      | Inr (ms, st, ps) \<Rightarrow> (card (set (map m_id ms) - visited st), Suc (length ps)))"

lemma find_id_mem: "find (\<lambda>m. m_id m = c) ms = Some m \<Longrightarrow> c \<in> set (map m_id ms)"
  by (induction ms) (auto split: if_splits)

termination hasCycle
proof (relation "inv_image (less_than <*lex*> less_than) dfs_measure")
  show "wf (inv_image (less_than <*lex*> less_than) dfs_measure)"
    by (intro wf_inv_image wf_lex_prod wf_less_than)
next
  fix modules :: "module list" and st :: dfs_state and c :: oid and st1 m
  assume a: "c \<notin> recursionStack st" "c \<notin> visited st"
    and st1: "st1 = st\<lparr>visited := insert c (visited st),
                        recursionStack := insert c (recursionStack st)\<rparr>"
    and f: "find (\<lambda>m. m_id m = c) modules = Some m"
  have "c \<in> set (map m_id modules)" using f by (rule find_id_mem)
  then have "set (map m_id modules) - visited st1 \<subset> set (map m_id modules) - visited st"
    using a(2) st1 by auto
  then have "card (set (map m_id modules) - visited st1)
      < card (set (map m_id modules) - visited st)"
    by (intro psubset_card_mono) simp_all
  then show "(Inr (modules, st1, m_prerequisites m), Inl (modules, st, c))
      \<in> inv_image (less_than <*lex*> less_than) dfs_measure"
    by (simp add: dfs_measure_def)
next
  fix modules :: "module list" and st :: dfs_state and prereqId :: oid and rest :: "oid list"
  show "(Inl (modules, st, prereqId), Inr (modules, st, prereqId # rest))
      \<in> inv_image (less_than <*lex*> less_than) dfs_measure"
    by (simp add: dfs_measure_def)
next
  fix modules :: "module list" and st :: dfs_state and prereqId :: oid and rest :: "oid list"
    and x :: bool and y :: dfs_state
  assume r: "(x, y) = hasCycle modules st prereqId"
    and d: "hasCycle_hasCycle_each_dom (Inl (modules, st, prereqId))"
  from visited_mono(1) [OF d] r [symmetric] have "visited st \<subseteq> visited y" by simp
  then have "set (map m_id modules) - visited y \<subseteq> set (map m_id modules) - visited st"
    by auto
  then have "card (set (map m_id modules) - visited y)
      \<le> card (set (map m_id modules) - visited st)"
    by (intro card_mono) simp_all
  then show "(Inr (modules, y, rest), Inr (modules, st, prereqId # rest))
      \<in> inv_image (less_than <*lex*> less_than) dfs_measure"
    by (auto simp: dfs_measure_def)
qed

definition checkCircularDependency :: "module list \<Rightarrow> oid \<Rightarrow> oid list \<Rightarrow> bool" where
  "checkCircularDependency db departmentId moduleIds =
     (let modules = filter (\<lambda>m. m_id m \<in> set moduleIds \<and> m_department m = departmentId) db
      in fst (hasCycle_each modules \<lparr>visited = {}, recursionStack = {}\<rparr> moduleIds))"

text \<open>
  The prerequisite graph of the claim: an edge runs from each module to each of its
  prerequisites.
\<close>

definition prereq_edge :: "module list \<Rightarrow> oid \<Rightarrow> oid \<Rightarrow> bool" where
  "prereq_edge db x y = list_ex (\<lambda>m. m_id m = x \<and> y \<in> set (m_prerequisites m)) db"


subsection \<open>GET /api/modules\<close>

text \<open>
  The query string of the listing. \<open>page\<close> and \<open>limit\<close> are the numbers the route computes
  with (defaults 1 and 10); the other parameters are absent or strings, and \<open>tags\<close> is a
  string or, when it is repeated, an array of strings.
\<close>

datatype tags_param = TagString string | TagArray "string list"

record list_params =
  p_page :: int
  p_limit :: int
  p_search :: "string option"
  p_department :: "string option"
  p_group :: "string option"
  p_difficulty :: "string option"
  p_createdBy :: "string option"
  p_tags :: "tags_param option"
  p_isActive :: "string option"
  p_hasQuestions :: "string option"

text \<open>
  The filter object handed to \<open>Module.find\<close>: a key is absent (\<open>None\<close>) or holds a
  condition. \<open>query.department\<close> may hold \<open>user.department\<close>, which may be undefined (the
  inner \<open>None\<close>: it matches no module, every module has a department).
\<close>

datatype module_cond =
  TitleRegex string
| DescriptionRegex string
| TagsRegex string
| CreatedByIs oid
| GroupsIn "oid list"

datatype groups_cond = GroupsInList "oid list" | GroupsContain oid

record module_query =
  q_isActive :: "bool option"
  q_or :: "module_cond list option"
  q_department :: "oid option option"
  q_difficulty :: "string option"
  q_createdBy :: "string option"
  q_tags :: "string list option"
  q_questions :: bool
  q_groups :: "groups_cond option"

definition empty_query :: module_query where
  "empty_query =
     \<lparr>q_isActive = None, q_or = None, q_department = None, q_difficulty = None,
      q_createdBy = None, q_tags = None, q_questions = False, q_groups = None\<rparr>"

text \<open>
  Matching a module against the filter. The case-insensitive regular-expression search
  of the database is the parameter \<open>rx pattern text\<close>.
\<close>

fun cond_holds :: "(string \<Rightarrow> string \<Rightarrow> bool) \<Rightarrow> module_cond \<Rightarrow> module \<Rightarrow> bool" where
  "cond_holds rx (TitleRegex p) m = rx p (m_title m)"
| "cond_holds rx (DescriptionRegex p) m =
     (case m_description m of None \<Rightarrow> False | Some d \<Rightarrow> rx p d)"
| "cond_holds rx (TagsRegex p) m = list_ex (rx p) (m_tags m)"
| "cond_holds rx (CreatedByIs u) m = (m_createdBy m = u)"
| "cond_holds rx (GroupsIn gs) m = list_ex (\<lambda>g. g \<in> set gs) (m_groups m)"

fun groups_hold :: "groups_cond \<Rightarrow> module \<Rightarrow> bool" where
  "groups_hold (GroupsInList gs) m = list_ex (\<lambda>g. g \<in> set gs) (m_groups m)"
| "groups_hold (GroupsContain g) m = (g \<in> set (m_groups m))"

definition module_matches :: "(string \<Rightarrow> string \<Rightarrow> bool) \<Rightarrow> module_query \<Rightarrow> module \<Rightarrow> bool" where
  "module_matches rx q m =
     ((case q_isActive q of None \<Rightarrow> True | Some b \<Rightarrow> m_isActive m = b)
      \<and> (case q_or q of None \<Rightarrow> True | Some cs \<Rightarrow> list_ex (\<lambda>c. cond_holds rx c m) cs)
      \<and> (case q_department q of None \<Rightarrow> True | Some d \<Rightarrow> Some (m_department m) = d)
      \<and> (case q_difficulty q of None \<Rightarrow> True | Some d \<Rightarrow> m_difficulty m = d)
      \<and> (case q_createdBy q of None \<Rightarrow> True | Some u \<Rightarrow> m_createdBy m = u)
      \<and> (case q_tags q of None \<Rightarrow> True | Some ts \<Rightarrow> list_ex (\<lambda>t. t \<in> set ts) (m_tags m))
      \<and> (if q_questions q then m_questions m \<noteq> [] else True)
      \<and> (case q_groups q of None \<Rightarrow> True | Some g \<Rightarrow> groups_hold g m))"

text \<open>
  \<^verbatim>\<open>
  let query = {};
  if (isActive !== undefined) { query.isActive = isActive === 'true'; }
  else { query.isActive = true; }
  if (search) { query.$or = [ {title: ...}, {description: ...}, {tags: ...} ]; }
  if (department) { query.department = department; }
  if (difficulty) { query.difficulty = difficulty; }
  if (createdBy) { query.createdBy = createdBy; }
  if (tags) { query.tags = { $in: Array.isArray(tags) ? tags : [tags] }; }
  if (hasQuestions === 'true') { query.questions = { $exists: true, $ne: [] }; }
  if (user.role.name === 'Admin') { }
  else if (user.role.name === 'HOD') { query.department = user.department; }
  else if (user.role.name === 'Teacher') {
    query.$or = [ { createdBy: user._id }, { groups: { $in: user.groups } } ]; }
  else { query.groups = { $in: user.groups }; }
  if (group && ['Admin', 'HOD', 'Teacher'].includes(user.role.name)) { query.groups = group; }
  \<close>
\<close>

definition module_list_query :: "user \<Rightarrow> list_params \<Rightarrow> module_query" where
  "module_list_query user p =
     (let query = empty_query;
          query = (case p_isActive p of
                     Some v \<Rightarrow> query\<lparr>q_isActive := Some (v = ''true'')\<rparr>
                   | None \<Rightarrow> query\<lparr>q_isActive := Some True\<rparr>);
          query = (case p_search p of
                     Some s \<Rightarrow>
                       if s \<noteq> [] then
                         query\<lparr>q_or := Some [TitleRegex s, DescriptionRegex s, TagsRegex s]\<rparr>
                       else query
                   | None \<Rightarrow> query);
          query = (if truthy (p_department p) then query\<lparr>q_department := Some (p_department p)\<rparr>
                   else query);
          query = (if truthy (p_difficulty p) then query\<lparr>q_difficulty := p_difficulty p\<rparr>
                   else query);
          query = (if truthy (p_createdBy p) then query\<lparr>q_createdBy := p_createdBy p\<rparr>
                   else query);
          query = (case p_tags p of
                     Some (TagArray ts) \<Rightarrow> query\<lparr>q_tags := Some ts\<rparr>
                   | Some (TagString t) \<Rightarrow>
                       if t \<noteq> [] then query\<lparr>q_tags := Some [t]\<rparr> else query
                   | None \<Rightarrow> query);
          query = (if p_hasQuestions p = Some ''true'' then query\<lparr>q_questions := True\<rparr>
                   else query);
          query = (if u_role user = ''Admin'' then query
                   else if u_role user = ''HOD'' then
                     query\<lparr>q_department := Some (u_department user)\<rparr>
                   else if u_role user = ''Teacher'' then
                     query\<lparr>q_or := Some [CreatedByIs (u_id user), GroupsIn (u_groups user)]\<rparr>
                   else query\<lparr>q_groups := Some (GroupsInList (u_groups user))\<rparr>)
      in case p_group p of
           Some g \<Rightarrow>
             if g \<noteq> [] \<and> u_role user \<in> set [''Admin'', ''HOD'', ''Teacher'']
             then query\<lparr>q_groups := Some (GroupsContain g)\<rparr>
             else query
         | None \<Rightarrow> query)"

text \<open>
  \<open>Module.find(query).sort({ sortOrder: 1, createdAt: -1 }).limit(..).skip(..)\<close>; the
  counts of questions, notes and assessments that the route adds to each module of the
  page do not select modules and are left out of the payload.
\<close>

definition sort_modules :: "module list \<Rightarrow> module list" where
  "sort_modules ms = sort_key m_sortOrder (sort_key (\<lambda>m. - m_createdAt m) ms)"

definition listModules ::
  "(string \<Rightarrow> string \<Rightarrow> bool) \<Rightarrow> module list \<Rightarrow> user \<Rightarrow> list_params \<Rightarrow> module list response" where
  "listModules rx db user p =
     (let query = module_list_query user p;
          skip = (p_page p - 1) * p_limit p
      in if skip < 0 then Failure 500 ''Failed to fetch modules''
         else Success 200
                (mongo_page skip (p_limit p) (sort_modules (filter (module_matches rx query) db))))"

subsection \<open>GET /api/modules/:id\<close>

definition findById :: "module list \<Rightarrow> oid \<Rightarrow> module option" where
  "findById db i = find (\<lambda>m. m_id m = i) db"




subsection \<open>POST /api/modules\<close>

record module_body =
  b_title :: "string option"
  b_description :: "string option"
  b_department :: "string option"
  b_groups :: "string list option"
  b_difficulty :: "string option"
  b_estimatedHours :: "int option"
  b_tags :: "string list option"
  b_prerequisites :: "string list option"
  b_sortOrder :: "int option"

text \<open>\<open>createModuleValidation\<close>: true when express-validator reports no error.\<close>

definition createModuleValidation :: "module_body \<Rightarrow> bool" where
  "createModuleValidation b =
     ((case b_title b of None \<Rightarrow> False | Some t \<Rightarrow> trim t \<noteq> [] \<and> length (trim t) \<le> 200)
      \<and> (case b_description b of None \<Rightarrow> True | Some d \<Rightarrow> length (trim d) \<le> 2000)
      \<and> (case b_department b of None \<Rightarrow> False | Some d \<Rightarrow> isMongoId d)
      \<and> (case b_groups b of None \<Rightarrow> True | Some gs \<Rightarrow> list_all isMongoId gs)
      \<and> (case b_difficulty b of
            None \<Rightarrow> True
          | Some d \<Rightarrow> d \<in> set [''beginner'', ''intermediate'', ''advanced''])
      \<and> (case b_estimatedHours b of None \<Rightarrow> True | Some h \<Rightarrow> 1 \<le> h \<and> h \<le> 200)
      \<and> (case b_tags b of None \<Rightarrow> True | Some ts \<Rightarrow> list_all (\<lambda>t. length (trim t) \<le> 50) ts)
      \<and> (case b_prerequisites b of None \<Rightarrow> True | Some ps \<Rightarrow> list_all isMongoId ps)
      \<and> (case b_sortOrder b of None \<Rightarrow> True | Some n \<Rightarrow> 0 \<le> n))"

definition or_default :: "'a option \<Rightarrow> 'a \<Rightarrow> 'a" where
  "or_default v d = (case v of None \<Rightarrow> d | Some x \<Rightarrow> x)"

text \<open>
  The handler, after \<open>requireAuth\<close> and \<open>requirePermission('manage_modules')\<close> have let the
  request through. It returns the response and the modules collection afterwards.
  \<open>newId\<close> is the ObjectId generated for the new document and \<open>now\<close> its creation time;
  a new module is active and has no questions or notes (the schema defaults).
\<close>

definition createModule ::
  "department list \<Rightarrow> group list \<Rightarrow> module list \<Rightarrow> user \<Rightarrow> oid \<Rightarrow> int \<Rightarrow> module_body
     \<Rightarrow> module response \<times> module list" where
  "createModule ddb gdb mdb user newId now b =
     (if \<not> createModuleValidation b then (Failure 400 ''Validation failed'', mdb)
      else
        case (b_title b, b_department b) of
          (Some title, Some department) \<Rightarrow>
            (let groups = or_default (b_groups b) [];
                 difficulty = or_default (b_difficulty b) ''beginner'';
                 tags = or_default (b_tags b) [];
                 prerequisites = or_default (b_prerequisites b) [];
                 sortOrder = or_default (b_sortOrder b) 0
             in case find (\<lambda>d. dep_id d = department) ddb of
                  None \<Rightarrow> (Failure 400 ''Department not found or inactive'', mdb)
                | Some departmentDoc \<Rightarrow>
                    if \<not> dep_isActive departmentDoc then
                      (Failure 400 ''Department not found or inactive'', mdb)
                    else if u_role user = ''HOD''
                        \<and> Some (dep_id departmentDoc) \<noteq> u_department user then
                      (Failure 403 ''Cannot create module in another department'', mdb)
                    else
                      let validGroups =
                            filter (\<lambda>g. g_id g \<in> set groups \<and> g_department g = department
                                         \<and> g_isActive g) gdb;
                          teacherGroups = filter (\<lambda>g. g_teacher g = u_id user) validGroups;
                          validPrerequisites =
                            filter (\<lambda>m. m_id m \<in> set prerequisites \<and> m_department m = department
                                         \<and> m_isActive m) mdb
                      in if length groups > 0 \<and> length validGroups \<noteq> length groups then
                           (Failure 400
                              ''Some groups are invalid or belong to different department'', mdb)
                         else if length groups > 0 \<and> u_role user = ''Teacher''
                             \<and> length teacherGroups \<noteq> length validGroups then
                           (Failure 403 ''Can only assign modules to groups you teach'', mdb)
                         else if length prerequisites > 0
                             \<and> length validPrerequisites \<noteq> length prerequisites then
                           (Failure 400
                              ''Some prerequisite modules are invalid or belong to different department'',
                            mdb)
                         else if length prerequisites > 0
                             \<and> checkCircularDependency mdb department prerequisites then
                           (Failure 400 ''Circular dependency detected in prerequisites'', mdb)
                         else
                           let moduleDoc =
                             \<lparr>m_id = newId, m_title = trim title,
                              m_description = map_option trim (b_description b),
                              m_department = department, m_groups = groups,
                              m_createdBy = u_id user, m_difficulty = difficulty,
                              m_estimatedHours = b_estimatedHours b,
                              m_tags = map (\<lambda>tag. toLowerCase (trim tag)) tags,
                              m_prerequisites = prerequisites, m_questions = [],
                              m_notes = [], m_sortOrder = sortOrder, m_isActive = True,
                              m_createdAt = now\<rparr>
                           in (Success 201 moduleDoc, mdb @ [moduleDoc]))
        | _ \<Rightarrow> (Failure 400 ''Validation failed'', mdb))"


subsection \<open>The module lookup of the changing routes\<close>

text \<open>
  The lookup shared by the routes that change a module:
  \<^verbatim>\<open>
  let module;
  if (user.role.name === 'Admin') { module = await Module.findById(id); }
  else if (user.role.name === 'HOD') {
    module = await Module.findOne({ _id: id, department: user.department }); }
  else if (user.role.name === 'Teacher') {
    module = await Module.findOne({ _id: id, createdBy: user._id }); }
  \<close>
\<close>

definition find_for_change :: "module list \<Rightarrow> user \<Rightarrow> oid \<Rightarrow> module option" where
  "find_for_change db user i =
     (if u_role user = ''Admin'' then findById db i
      else if u_role user = ''HOD'' then
        find (\<lambda>m. m_id m = i \<and> Some (m_department m) = u_department user) db
      else if u_role user = ''Teacher'' then
        find (\<lambda>m. m_id m = i \<and> m_createdBy m = u_id user) db
      else None)"

subsection \<open>PUT /api/modules/:id\<close>

text \<open>\<open>updateModuleValidation\<close>: every field is optional.\<close>

definition updateModuleValidation :: "module_body \<Rightarrow> bool" where
  "updateModuleValidation b =
     ((case b_title b of None \<Rightarrow> True | Some t \<Rightarrow> trim t \<noteq> [] \<and> length (trim t) \<le> 200)
      \<and> (case b_description b of None \<Rightarrow> True | Some d \<Rightarrow> length (trim d) \<le> 2000)
      \<and> (case b_groups b of None \<Rightarrow> True | Some gs \<Rightarrow> list_all isMongoId gs)
      \<and> (case b_difficulty b of
            None \<Rightarrow> True
          | Some d \<Rightarrow> d \<in> set [''beginner'', ''intermediate'', ''advanced''])
      \<and> (case b_estimatedHours b of None \<Rightarrow> True | Some h \<Rightarrow> 1 \<le> h \<and> h \<le> 200)
      \<and> (case b_tags b of None \<Rightarrow> True | Some ts \<Rightarrow> list_all (\<lambda>t. length (trim t) \<le> 50) ts)
      \<and> (case b_prerequisites b of None \<Rightarrow> True | Some ps \<Rightarrow> list_all isMongoId ps)
      \<and> (case b_sortOrder b of None \<Rightarrow> True | Some n \<Rightarrow> 0 \<le> n))"

text \<open>
  \<^verbatim>\<open>
  const allowedFields = ['title', 'description', 'groups', 'difficulty', 'estimatedHours',
                         'tags', 'prerequisites', 'sortOrder'];
  allowedFields.forEach(field => {
    if (req.body[field] !== undefined) {
      if (field === 'title' || field === 'description') {
        updateData[field] = req.body[field].trim();
      } else if (field === 'tags') {
        updateData[field] = req.body[field].map(tag => tag.trim().toLowerCase());
      } else { updateData[field] = req.body[field]; }
    }
  });
  \<close>
  \<open>updateData\<close>, as the change that \<open>findByIdAndUpdate\<close> makes to the stored document.
\<close>

definition apply_updateData :: "module_body \<Rightarrow> module \<Rightarrow> module" where
  "apply_updateData b m =
     m\<lparr>m_title := (case b_title b of None \<Rightarrow> m_title m | Some t \<Rightarrow> trim t),
       m_description := (case b_description b of
                           None \<Rightarrow> m_description m
                         | Some d \<Rightarrow> Some (trim d)),
       m_groups := or_default (b_groups b) (m_groups m),
       m_difficulty := or_default (b_difficulty b) (m_difficulty m),
       m_estimatedHours := (case b_estimatedHours b of
                              None \<Rightarrow> m_estimatedHours m
                            | Some h \<Rightarrow> Some h),
       m_tags := (case b_tags b of
                    None \<Rightarrow> m_tags m
                  | Some ts \<Rightarrow> map (\<lambda>tag. toLowerCase (trim tag)) ts),
       m_prerequisites := or_default (b_prerequisites b) (m_prerequisites m),
       m_sortOrder := or_default (b_sortOrder b) (m_sortOrder m)\<rparr>"

text \<open>
  \<^verbatim>\<open>
  if (updateData.prerequisites) {
    const validPrerequisites = await Module.find({
      _id: { $in: updateData.prerequisites },
      department: module.department,
      isActive: true,
      _id: { $ne: id } // Exclude self
    });
    if (validPrerequisites.length !== updateData.prerequisites.length) {
      return res.status(400)... }
    const hasCircularDependency = await checkCircularDependency(
      module.department, [...updateData.prerequisites, id]);
    if (hasCircularDependency) { return res.status(400)... }
  }
  const updatedModule = await Module.findByIdAndUpdate(id, updateData, ...);
  res.json({ success: true, message: 'Module updated successfully', data: updatedModule });
  \<close>
  The filter literal has the key \<open>_id\<close> twice; in an object literal the later value
  replaces the earlier, so the filter that reaches the database is
  \<open>{ department, isActive: true, _id: { $ne: id } }\<close>.
\<close>

definition updateModule ::
  "group list \<Rightarrow> module list \<Rightarrow> user \<Rightarrow> string \<Rightarrow> module_body
     \<Rightarrow> module option response \<times> module list" where
  "updateModule gdb mdb user i b =
     (if \<not> (isMongoId i \<and> updateModuleValidation b) then
        (Failure 400 ''Validation failed'', mdb)
      else
        case find_for_change mdb user i of
          None \<Rightarrow> (Failure 404 ''Module not found or access denied'', mdb)
        | Some moduleDoc \<Rightarrow>
            let groups = or_default (b_groups b) [];
                validGroups =
                  filter (\<lambda>g. g_id g \<in> set groups \<and> g_department g = m_department moduleDoc
                               \<and> g_isActive g) gdb;
                teacherGroups = filter (\<lambda>g. g_teacher g = u_id user) validGroups;
                prerequisites = or_default (b_prerequisites b) [];
                validPrerequisites =
                  filter (\<lambda>m. m_department m = m_department moduleDoc \<and> m_isActive m
                               \<and> m_id m \<noteq> i) mdb
            in if b_groups b \<noteq> None \<and> length validGroups \<noteq> length groups then
                 (Failure 400 ''Some groups are invalid or belong to different department'',
                  mdb)
               else if b_groups b \<noteq> None \<and> u_role user = ''Teacher''
                   \<and> length teacherGroups \<noteq> length validGroups then
                 (Failure 403 ''Can only assign modules to groups you teach'', mdb)
               else if b_prerequisites b \<noteq> None
                   \<and> length validPrerequisites \<noteq> length prerequisites then
                 (Failure 400
                    ''Some prerequisite modules are invalid or belong to different department'',
                  mdb)
               else if b_prerequisites b \<noteq> None
                   \<and> checkCircularDependency mdb (m_department moduleDoc)
                        (prerequisites @ [i]) then
                 (Failure 400 ''Circular dependency detected in prerequisites'', mdb)
               else
                 let mdb' = map (\<lambda>x. if m_id x = i then apply_updateData b x else x) mdb
                 in (Success 200 (findById mdb' i), mdb'))"

subsection \<open>DELETE /api/modules/:id and POST /api/modules/:id/questions\<close>





section \<open>Notice routes\<close>

record read_entry =
  re_user :: oid
  re_readAt :: int

record notice =
  n_id :: oid
  n_title :: string
  n_content :: string
  n_postedBy :: oid
  n_targetType :: string
  n_targetRoles :: "string list"
  n_department :: "oid option"
  n_groups :: "oid list"
  n_priority :: string
  n_expiresAt :: "int option"
  n_isActive :: bool
  n_readBy :: "read_entry list"
  n_createdAt :: int

subsection \<open>GET /api/notices\<close>

record notice_params =
  np_page :: int
  np_limit :: int
  np_search :: "string option"
  np_department :: "string option"
  np_group :: "string option"
  np_targetType :: "string option"
  np_priority :: "string option"
  np_unread :: "string option"
  np_isActive :: "string option"
  np_postedBy :: "string option"

datatype notice_cond =
  NTitleRegex string
| NContentRegex string
| TargetAll
| TargetRole string
| TargetDepartment "oid option"
| TargetGroups "oid list"

text \<open>
  The filter handed to \<open>Notice.find\<close>. \<open>nq_unexpiredAt\<close> is the \<open>$and\<close> clause that the
  route always pushes: \<open>expiresAt\<close> does not exist or lies after the given time.
\<close>

record notice_query =
  nq_isActive :: bool
  nq_or :: "notice_cond list option"
  nq_department :: "string option"
  nq_groups :: "string option"
  nq_targetType :: "string option"
  nq_priority :: "string option"
  nq_postedBy :: "string option"
  nq_unexpiredAt :: "int option"

fun notice_cond_holds :: "(string \<Rightarrow> string \<Rightarrow> bool) \<Rightarrow> notice_cond \<Rightarrow> notice \<Rightarrow> bool" where
  "notice_cond_holds rx (NTitleRegex p) n = rx p (n_title n)"
| "notice_cond_holds rx (NContentRegex p) n = rx p (n_content n)"
| "notice_cond_holds rx TargetAll n = (n_targetType n = ''all'')"
| "notice_cond_holds rx (TargetRole r) n =
     (n_targetType n = ''role'' \<and> r \<in> set (n_targetRoles n))"
| "notice_cond_holds rx (TargetDepartment d) n =
     (n_targetType n = ''department'' \<and> n_department n = d)"
| "notice_cond_holds rx (TargetGroups gs) n =
     (n_targetType n = ''group'' \<and> list_ex (\<lambda>g. g \<in> set gs) (n_groups n))"

definition notice_matches :: "(string \<Rightarrow> string \<Rightarrow> bool) \<Rightarrow> notice_query \<Rightarrow> notice \<Rightarrow> bool" where
  "notice_matches rx q n =
     (n_isActive n = nq_isActive q
      \<and> (case nq_or q of None \<Rightarrow> True | Some cs \<Rightarrow> list_ex (\<lambda>c. notice_cond_holds rx c n) cs)
      \<and> (case nq_department q of None \<Rightarrow> True | Some d \<Rightarrow> n_department n = Some d)
      \<and> (case nq_groups q of None \<Rightarrow> True | Some g \<Rightarrow> g \<in> set (n_groups n))
      \<and> (case nq_targetType q of None \<Rightarrow> True | Some t \<Rightarrow> n_targetType n = t)
      \<and> (case nq_priority q of None \<Rightarrow> True | Some pr \<Rightarrow> n_priority n = pr)
      \<and> (case nq_postedBy q of None \<Rightarrow> True | Some u \<Rightarrow> n_postedBy n = u)
      \<and> (case nq_unexpiredAt q of
            None \<Rightarrow> True
          | Some now \<Rightarrow> (case n_expiresAt n of None \<Rightarrow> True | Some t \<Rightarrow> now < t)))"

text \<open>
  \<^verbatim>\<open>
  let query = { isActive: true };
  if (search) { query.$or = [ { title: ... }, { content: ... } ]; }
  if (department) { query.department = department; }
  if (group) { query.groups = group; }
  if (targetType) { query.targetType = targetType; }
  if (priority) { query.priority = priority; }
  if (isActive !== undefined) { query.isActive = isActive === 'true'; }
  if (postedBy) { query.postedBy = postedBy; }
  query.$and = query.$and || [];
  query.$and.push({ $or: [ { expiresAt: { $exists: false } },
                           { expiresAt: { $gt: new Date() } } ] });
  if (user.role.name === 'Admin') { ... }
  else if (user.role.name === 'HOD') { query.$or = [ { targetType: 'all' },
      { targetType: 'role', targetRoles: { $in: [user.role.name] } },
      { targetType: 'department', department: user.department } ]; ... }
  else if (user.role.name === 'Teacher') { query.$or = [ { targetType: 'all' },
      { targetType: 'role', targetRoles: { $in: [user.role.name] } },
      { targetType: 'group', groups: { $in: user.groups } } ]; ... }
  \<close>
  The query of the Admin, HOD and Teacher branches; \<open>now\<close> is the clock.
\<close>

definition notice_list_query :: "int \<Rightarrow> user \<Rightarrow> notice_params \<Rightarrow> notice_query" where
  "notice_list_query now user p =
     (let query = \<lparr>nq_isActive = True, nq_or = None, nq_department = None, nq_groups = None,
                   nq_targetType = None, nq_priority = None, nq_postedBy = None,
                   nq_unexpiredAt = None\<rparr>;
          query = (case np_search p of
                     Some s \<Rightarrow>
                       if s \<noteq> [] then query\<lparr>nq_or := Some [NTitleRegex s, NContentRegex s]\<rparr>
                       else query
                   | None \<Rightarrow> query);
          query = (if truthy (np_department p) then query\<lparr>nq_department := np_department p\<rparr>
                   else query);
          query = (if truthy (np_group p) then query\<lparr>nq_groups := np_group p\<rparr> else query);
          query = (if truthy (np_targetType p) then query\<lparr>nq_targetType := np_targetType p\<rparr>
                   else query);
          query = (if truthy (np_priority p) then query\<lparr>nq_priority := np_priority p\<rparr>
                   else query);
          query = (case np_isActive p of
                     Some v \<Rightarrow> query\<lparr>nq_isActive := (v = ''true'')\<rparr>
                   | None \<Rightarrow> query);
          query = (if truthy (np_postedBy p) then query\<lparr>nq_postedBy := np_postedBy p\<rparr>
                   else query);
          query = query\<lparr>nq_unexpiredAt := Some now\<rparr>
      in if u_role user = ''Admin'' then query
         else if u_role user = ''HOD'' then
           query\<lparr>nq_or := Some [TargetAll, TargetRole (u_role user),
                                 TargetDepartment (u_department user)]\<rparr>
         else if u_role user = ''Teacher'' then
           query\<lparr>nq_or := Some [TargetAll, TargetRole (u_role user),
                                 TargetGroups (u_groups user)]\<rparr>
         else query)"

text \<open>\<open>.sort({ priority: -1, createdAt: -1 })\<close>: the priority is compared as a string.\<close>

definition sort_notices :: "notice list \<Rightarrow> notice list" where
  "sort_notices ns = rev (sort_key n_priority (rev (sort_key (\<lambda>n. - n_createdAt n) ns)))"

text \<open>
  \<^verbatim>\<open>
  else {  // Student - use the static method for proper filtering
    accessibleNotices = await Notice.findByUser(user._id, { page, limit, unread });
    ...
    return res.json({ success: true, data: accessibleNotices, ... });
  }
  const notices = await Notice.find(query) ... .sort(..).limit(limit * 1).skip((page - 1) * limit);
  let finalNotices = notices;
  if (unread === 'true') {
    finalNotices = notices.filter(notice =>
      !notice.readBy.some(readEntry => readEntry.user.toString() === user._id.toString()));
  }
  res.json({ success: true, data: finalNotices, ... });
  \<close>
  \<open>Notice.findByUser\<close> is a static of the Notice model, which is not among the sources;
  what it returns for the student is the argument \<open>byUser\<close>.
\<close>

definition read_by :: "user \<Rightarrow> notice \<Rightarrow> bool" where
  "read_by user n = list_ex (\<lambda>readEntry. re_user readEntry = u_id user) (n_readBy n)"

definition listNotices ::
  "(string \<Rightarrow> string \<Rightarrow> bool) \<Rightarrow> int \<Rightarrow> notice list \<Rightarrow> notice list \<Rightarrow> user \<Rightarrow> notice_params
     \<Rightarrow> notice list response" where
  "listNotices rx now db byUser user p =
     (if u_role user \<notin> set [''Admin'', ''HOD'', ''Teacher''] then Success 200 byUser
      else
        let query = notice_list_query now user p;
            skip = (np_page p - 1) * np_limit p
        in if skip < 0 then Failure 500 ''Failed to fetch notices''
           else
             let notices = mongo_page skip (np_limit p)
                             (sort_notices (filter (notice_matches rx query) db));
                 finalNotices = (if np_unread p = Some ''true''
                                 then filter (\<lambda>n. \<not> read_by user n) notices
                                 else notices)
             in Success 200 finalNotices)"

subsection \<open>POST /api/notices\<close>

text \<open>
  The body of the request. \<open>nb_expiresAt\<close> is absent, or present and not an ISO 8601 date
  (\<open>Some None\<close>), or present with the time it denotes.
\<close>

record notice_body =
  nb_title :: "string option"
  nb_content :: "string option"
  nb_targetType :: "string option"
  nb_targetRoles :: "string list option"
  nb_department :: "string option"
  nb_groups :: "string list option"
  nb_priority :: "string option"
  nb_expiresAt :: "int option option"

text \<open>\<open>createNoticeValidation\<close>: true when express-validator reports no error.\<close>

definition createNoticeValidation :: "int \<Rightarrow> notice_body \<Rightarrow> bool" where
  "createNoticeValidation now b =
     ((case nb_title b of None \<Rightarrow> False | Some t \<Rightarrow> trim t \<noteq> [] \<and> length (trim t) \<le> 200)
      \<and> (case nb_content b of None \<Rightarrow> False | Some c \<Rightarrow> trim c \<noteq> [])
      \<and> (case nb_targetType b of
            None \<Rightarrow> False
          | Some t \<Rightarrow> t \<in> set [''all'', ''department'', ''group'', ''role''])
      \<and> (case nb_targetRoles b of
            None \<Rightarrow> True
          | Some rs \<Rightarrow> list_all (\<lambda>r. r \<in> set [''Admin'', ''HOD'', ''Teacher'', ''Student'']) rs)
      \<and> (case nb_department b of None \<Rightarrow> True | Some d \<Rightarrow> isMongoId d)
      \<and> (case nb_groups b of None \<Rightarrow> True | Some gs \<Rightarrow> list_all isMongoId gs)
      \<and> (case nb_priority b of None \<Rightarrow> True | Some pr \<Rightarrow> pr \<in> set [''low'', ''medium'', ''high''])
      \<and> (case nb_expiresAt b of
            None \<Rightarrow> True
          | Some None \<Rightarrow> False
          | Some (Some t) \<Rightarrow> now < t))"

text \<open>
  \<^verbatim>\<open>
  if (!errors.isEmpty()) { return res.status(400)... }
  const { title, content, targetType, targetRoles = [], department, groups = [],
          priority = 'medium', expiresAt } = req.body;
  if (targetType === 'department' && !department) { return res.status(400)... }
  if (targetType === 'group' && groups.length === 0) { return res.status(400)... }
  if (targetType === 'role' && targetRoles.length === 0) { return res.status(400)... }
  if (department) {
    const departmentDoc = await Department.findById(department);
    if (!departmentDoc || !departmentDoc.isActive) { return res.status(400)... }
    if (user.role.name === 'HOD' && !departmentDoc._id.equals(user.department)) {
      return res.status(403)... }
  }
  if (groups.length > 0) {
    const validGroups = await Group.find({ _id: { $in: groups }, isActive: true });
    if (validGroups.length !== groups.length) { return res.status(400)... }
    if (user.role.name === 'Teacher') { ... return res.status(403)... }
  }
  const notice = new Notice({ ... });
  await notice.save();
  res.status(201).json(...);
  \<close>
  The handler, after \<open>requireAuth\<close> and \<open>requirePermission('post_notices')\<close> have let the
  request through; it returns the response and the notices collection afterwards. A new
  notice is active and unread (the schema defaults). The blocks \<open>if (department) { ... }\<close>
  and \<open>if (groups.length > 0) { ... }\<close> are \<open>department_check\<close> and \<open>groups_check\<close>: the
  status and message of the block's early return, if it makes one.
\<close>

definition department_check :: "department list \<Rightarrow> user \<Rightarrow> string option \<Rightarrow> (nat \<times> string) option" where
  "department_check ddb user department =
     (case department of
        None \<Rightarrow> None
      | Some d \<Rightarrow>
          if d = [] then None
          else
            (case find (\<lambda>x. dep_id x = d) ddb of
               None \<Rightarrow> Some (400, ''Department not found or inactive'')
             | Some departmentDoc \<Rightarrow>
                 if \<not> dep_isActive departmentDoc then
                   Some (400, ''Department not found or inactive'')
                 else if u_role user = ''HOD''
                     \<and> Some (dep_id departmentDoc) \<noteq> u_department user then
                   Some (403, ''Cannot create notice for another department'')
                 else None))"

definition groups_check :: "group list \<Rightarrow> user \<Rightarrow> string list \<Rightarrow> (nat \<times> string) option" where
  "groups_check gdb user groups =
     (if length groups > 0 then
        let validGroups = filter (\<lambda>g. g_id g \<in> set groups \<and> g_isActive g) gdb;
            teacherGroups = filter (\<lambda>g. g_teacher g = u_id user) validGroups
        in if length validGroups \<noteq> length groups then
             Some (400, ''Some groups are invalid or inactive'')
           else if u_role user = ''Teacher'' \<and> length teacherGroups \<noteq> length validGroups then
             Some (403, ''Can only create notices for groups you teach'')
           else None
      else None)"

definition createNotice ::
  "department list \<Rightarrow> group list \<Rightarrow> notice list \<Rightarrow> user \<Rightarrow> oid \<Rightarrow> int \<Rightarrow> notice_body
     \<Rightarrow> notice response \<times> notice list" where
  "createNotice ddb gdb ndb user newId now b =
     (if \<not> createNoticeValidation now b then (Failure 400 ''Validation failed'', ndb)
      else
        case (nb_title b, nb_content b, nb_targetType b) of
          (Some title, Some content, Some targetType) \<Rightarrow>
            (let targetRoles = or_default (nb_targetRoles b) [];
                 department = nb_department b;
                 groups = or_default (nb_groups b) [];
                 priority = or_default (nb_priority b) ''medium''
             in if targetType = ''department'' \<and> \<not> truthy department then
                  (Failure 400 ''Department is required for department-specific notices'', ndb)
                else if targetType = ''group'' \<and> length groups = 0 then
                  (Failure 400 ''At least one group is required for group-specific notices'',
                   ndb)
                else if targetType = ''role'' \<and> length targetRoles = 0 then
                  (Failure 400
                     ''At least one target role is required for role-specific notices'', ndb)
                else
                  case department_check ddb user department of
                    Some (code, msg) \<Rightarrow> (Failure code msg, ndb)
                  | None \<Rightarrow>
                      (case groups_check gdb user groups of
                         Some (code, msg) \<Rightarrow> (Failure code msg, ndb)
                       | None \<Rightarrow>
                           let noticeDoc =
                             \<lparr>n_id = newId, n_title = trim title, n_content = trim content,
                              n_postedBy = u_id user, n_targetType = targetType,
                              n_targetRoles = targetRoles, n_department = department,
                              n_groups = groups, n_priority = priority,
                              n_expiresAt = (case nb_expiresAt b of
                                               Some (Some t) \<Rightarrow> Some t
                                             | _ \<Rightarrow> None),
                              n_isActive = True, n_readBy = [], n_createdAt = now\<rparr>
                           in (Success 201 noticeDoc, ndb @ [noticeDoc])))
        | _ \<Rightarrow> (Failure 400 ''Validation failed'', ndb))"

section \<open>Example data\<close>

text \<open>Identifiers and documents for the concrete instances below.\<close>

definition dep1 :: oid where "dep1 = ''d00000000000000000000001''"
definition dep2 :: oid where "dep2 = ''d00000000000000000000002''"
definition mod_a :: oid where "mod_a = ''c0000000000000000000000a''"
definition mod_b :: oid where "mod_b = ''c0000000000000000000000b''"
definition mod_c :: oid where "mod_c = ''c0000000000000000000000c''"
definition usr1 :: oid where "usr1 = ''a00000000000000000000001''"
definition usr2 :: oid where "usr2 = ''a00000000000000000000002''"
definition grp1 :: oid where "grp1 = ''e00000000000000000000001''"
definition grp2 :: oid where "grp2 = ''e00000000000000000000002''"
definition qst1 :: oid where "qst1 = ''f00000000000000000000001''"
definition qst2 :: oid where "qst2 = ''f00000000000000000000002''"
definition asm1 :: oid where "asm1 = ''b00000000000000000000001''"
definition ntc1 :: oid where "ntc1 = ''000000000000000000000001''"
definition ntc2 :: oid where "ntc2 = ''000000000000000000000002''"

lemmas example_ids =
  dep1_def dep2_def mod_a_def mod_b_def mod_c_def usr1_def usr2_def grp1_def grp2_def
  qst1_def qst2_def asm1_def ntc1_def ntc2_def

definition ex_user :: "oid \<Rightarrow> string \<Rightarrow> oid option \<Rightarrow> user" where
  "ex_user i r d = \<lparr>u_id = i, u_role = r, u_department = d, u_groups = [grp1]\<rparr>"

definition ex_module :: "oid \<Rightarrow> oid \<Rightarrow> oid \<Rightarrow> oid list \<Rightarrow> module" where
  "ex_module i d u ps =
     \<lparr>m_id = i, m_title = ''T'', m_description = None, m_department = d, m_groups = [grp1],
      m_createdBy = u, m_difficulty = ''beginner'', m_estimatedHours = None, m_tags = [],
      m_prerequisites = ps, m_questions = [qst1], m_notes = [], m_sortOrder = 0,
      m_isActive = True, m_createdAt = 0\<rparr>"

definition ex_body :: "oid \<Rightarrow> oid list \<Rightarrow> module_body" where
  "ex_body d ps =
     \<lparr>b_title = Some ''Graphs'', b_description = None, b_department = Some d, b_groups = None,
      b_difficulty = None, b_estimatedHours = None, b_tags = None,
      b_prerequisites = Some ps, b_sortOrder = None\<rparr>"

definition ex_update_body :: "oid list \<Rightarrow> module_body" where
  "ex_update_body ps =
     \<lparr>b_title = None, b_description = None, b_department = None, b_groups = None,
      b_difficulty = None, b_estimatedHours = None, b_tags = None,
      b_prerequisites = Some ps, b_sortOrder = None\<rparr>"

definition ex_params :: list_params where
  "ex_params =
     \<lparr>p_page = 1, p_limit = 10, p_search = None, p_department = None, p_group = None,
      p_difficulty = None, p_createdBy = None, p_tags = None, p_isActive = None,
      p_hasQuestions = None\<rparr>"

definition ex_notice :: "oid \<Rightarrow> oid list \<Rightarrow> notice" where
  "ex_notice i readers =
     \<lparr>n_id = i, n_title = ''N'', n_content = ''text'', n_postedBy = usr1, n_targetType = ''all'',
      n_targetRoles = [], n_department = None, n_groups = [], n_priority = ''medium'',
      n_expiresAt = None, n_isActive = True,
      n_readBy = map (\<lambda>u. \<lparr>re_user = u, re_readAt = 0\<rparr>) readers, n_createdAt = 0\<rparr>"

definition ex_notice_params :: notice_params where
  "ex_notice_params =
     \<lparr>np_page = 1, np_limit = 10, np_search = None, np_department = None, np_group = None,
      np_targetType = None, np_priority = None, np_unread = Some ''true'', np_isActive = None,
      np_postedBy = None\<rparr>"

definition ex_notice_body :: "string \<Rightarrow> notice_body" where
  "ex_notice_body t =
     \<lparr>nb_title = Some ''Exam'', nb_content = Some ''Monday'', nb_targetType = Some t,
      nb_targetRoles = None, nb_department = None, nb_groups = None, nb_priority = None,
      nb_expiresAt = None\<rparr>"

text \<open>No text matches a search pattern: a stand-in for the database's regular expressions.\<close>

definition no_rx :: "string \<Rightarrow> string \<Rightarrow> bool" where
  "no_rx p t = False"


section \<open>Theorems\<close>

subsection \<open>The comparator sort is the ascending sort\<close>






subsection \<open>The streak loop\<close>




subsection \<open>The score ranges leave gaps\<close>



subsection \<open>The module listing and the role scopes\<close>

lemma mongo_page_subset: "set (mongo_page skip n xs) \<subseteq> set xs"
  by (auto simp: mongo_page_def dest: in_set_takeD in_set_dropD)

lemma sort_modules_set: "set (sort_modules ms) = set ms"
  by (simp add: sort_modules_def)

lemma listModules_matches:
  assumes "listModules rx db user p = Success c ms" and "m \<in> set ms"
  shows "m \<in> set db \<and> module_matches rx (module_list_query user p) m"
proof -
  from assms(1) have ms: "ms = mongo_page ((p_page p - 1) * p_limit p) (p_limit p)
      (sort_modules (filter (module_matches rx (module_list_query user p)) db))"
    by (simp add: listModules_def Let_def split: if_splits)
  from assms(2) have "m \<in> set (mongo_page ((p_page p - 1) * p_limit p) (p_limit p)
      (sort_modules (filter (module_matches rx (module_list_query user p)) db)))"
    unfolding ms .
  then have
    "m \<in> set (sort_modules (filter (module_matches rx (module_list_query user p)) db))"
    by (rule subsetD [OF mongo_page_subset])
  then show ?thesis by (simp add: sort_modules_set)
qed

lemma student_query:
  assumes "u_role user \<notin> {''Admin'', ''HOD'', ''Teacher''}"
  shows "q_groups (module_list_query user p) = Some (GroupsInList (u_groups user))"
    and "p_isActive p = None \<Longrightarrow> q_isActive (module_list_query user p) = Some True"
  using assms
  by (auto simp: module_list_query_def Let_def empty_query_def
      split: option.splits tags_param.splits)


text \<open>
  Claim C3. For a user with the Student role (any role other than Admin, HOD and Teacher
  takes the same branch), every module returned by GET /api/modules is assigned to at
  least one of the user's groups, and when the isActive parameter is absent every
  returned module is active.
\<close>

theorem student_listing_scope:
  assumes "u_role user \<notin> {''Admin'', ''HOD'', ''Teacher''}"
    and "listModules rx db user p = Success c ms"
    and "m \<in> set ms"
  shows "list_ex (\<lambda>g. g \<in> set (u_groups user)) (m_groups m)
         \<and> (p_isActive p = None \<longrightarrow> m_isActive m)"
proof -
  from listModules_matches [OF assms(2,3)]
  have mm: "module_matches rx (module_list_query user p) m" by simp
  from mm student_query(1) [OF assms(1), of p]
  have g: "list_ex (\<lambda>g. g \<in> set (u_groups user)) (m_groups m)"
    by (simp add: module_matches_def)
  have a: "p_isActive p = None \<longrightarrow> m_isActive m"
  proof
    assume "p_isActive p = None"
    from mm student_query(2) [OF assms(1) this] show "m_isActive m"
      by (simp add: module_matches_def)
  qed
  from g a show ?thesis by simp
qed


theorem student_listing_scope_witness:
  "u_role (ex_user usr2 ''Student'' None) \<notin> {''Admin'', ''HOD'', ''Teacher''}
   \<and> listModules no_rx
         [ex_module mod_a dep1 usr1 [], (ex_module mod_b dep1 usr1 [])\<lparr>m_groups := [grp2]\<rparr>,
          (ex_module mod_c dep1 usr1 [])\<lparr>m_isActive := False\<rparr>]
         (ex_user usr2 ''Student'' None) ex_params
       = Success 200 [ex_module mod_a dep1 usr1 []]
   \<and> list_ex (\<lambda>g. g \<in> set (u_groups (ex_user usr2 ''Student'' None)))
        (m_groups (ex_module mod_a dep1 usr1 []))
   \<and> p_isActive ex_params = None
   \<and> m_isActive (ex_module mod_a dep1 usr1 [])"
proof -
  have r: "u_role (ex_user usr2 ''Student'' None) \<notin> {''Admin'', ''HOD'', ''Teacher''}"
    by (simp add: ex_user_def)
  have l: "listModules no_rx
         [ex_module mod_a dep1 usr1 [], (ex_module mod_b dep1 usr1 [])\<lparr>m_groups := [grp2]\<rparr>,
          (ex_module mod_c dep1 usr1 [])\<lparr>m_isActive := False\<rparr>]
         (ex_user usr2 ''Student'' None) ex_params
       = Success 200 [ex_module mod_a dep1 usr1 []]"
    by (simp add: listModules_def module_list_query_def empty_query_def module_matches_def
        mongo_page_def sort_modules_def ex_user_def ex_module_def ex_params_def truthy_def
        example_ids Let_def)
  have m: "ex_module mod_a dep1 usr1 [] \<in> set [ex_module mod_a dep1 usr1 []]" by simp
  have n: "p_isActive ex_params = None" by (simp add: ex_params_def)
  from student_listing_scope [OF r l m] r l n show ?thesis by simp
qed









subsection \<open>Deleting a module\<close>










subsection \<open>Adding questions\<close>




subsection \<open>The cycle check loads only the given modules\<close>

text \<open>
  Called with a single id, the search loads at most the module of that id: every other
  prerequisite is marked visited and left without being expanded, so only a module that
  lists itself is reported.
\<close>

lemma each_unloaded:
  assumes only: "\<forall>m \<in> set modules. m_id m = a"
    and st: "recursionStack st = {a}" "a \<in> visited st"
  shows "fst (hasCycle_each modules st ps) = (a \<in> set ps)
       \<and> (\<not> fst (hasCycle_each modules st ps) \<longrightarrow>
            recursionStack (snd (hasCycle_each modules st ps)) = {a}
            \<and> a \<in> visited (snd (hasCycle_each modules st ps)))"
  using st
proof (induction ps arbitrary: st)
  case Nil
  then show ?case by simp
next
  case (Cons p ps)
  show ?case
  proof (cases "p = a")
    case True
    with Cons.prems show ?thesis by simp
  next
    case False
    from only False have nf: "find (\<lambda>m. m_id m = p) modules = None"
      by (auto simp: find_None_iff)
    show ?thesis
    proof (cases "p \<in> visited st")
      case True
      with False Cons.prems have "hasCycle modules st p = (False, st)" by simp
      with Cons.IH [OF Cons.prems] False show ?thesis by simp
    next
      case nv: False
      let ?st' = "st\<lparr>visited := insert p (visited st), recursionStack := {a}\<rparr>"
      from False nv Cons.prems nf have h: "hasCycle modules st p = (False, ?st')"
        by (simp add: Let_def insert_Diff_if)
      have "recursionStack ?st' = {a}" "a \<in> visited ?st'" using Cons.prems by simp_all
      from Cons.IH [OF this] h False show ?thesis by simp
    qed
  qed
qed

lemma single_id_check:
  "checkCircularDependency db d [a]
   = (case find (\<lambda>m. m_id m = a) (filter (\<lambda>m. m_id m = a \<and> m_department m = d) db) of
        None \<Rightarrow> False
      | Some m \<Rightarrow> a \<in> set (m_prerequisites m))"
proof -
  let ?ms = "filter (\<lambda>m. m_id m = a \<and> m_department m = d) db"
  let ?st1 = "\<lparr>visited = {a}, recursionStack = {a}\<rparr>"
  have only: "\<forall>m \<in> set ?ms. m_id m = a" by simp
  have e: "\<And>ps. fst (hasCycle_each ?ms ?st1 ps) = (a \<in> set ps)"
    using each_unloaded [OF only, of ?st1] by simp
  show ?thesis
  proof (cases "find (\<lambda>m. m_id m = a) ?ms")
    case None
    then show ?thesis by (simp add: checkCircularDependency_def Let_def)
  next
    case (Some m)
    obtain b st2 where r: "hasCycle_each ?ms ?st1 (m_prerequisites m) = (b, st2)"
      by (cases "hasCycle_each ?ms ?st1 (m_prerequisites m)")
    with e [of "m_prerequisites m"] have b: "b = (a \<in> set (m_prerequisites m))" by simp
    from Some r b show ?thesis
      by (cases b) (simp_all add: checkCircularDependency_def Let_def)
  qed
qed

text \<open>
  Claim C1. checkCircularDependency returns true if and only if the prerequisite graph
  contains a cycle reachable from one of the given ids, and creation and update are
  rejected exactly then. The code loads only the modules whose ids are given, so a
  prerequisite that is not itself among the given ids is never expanded. With \<open>mod_b\<close>
  requiring \<open>mod_a\<close>, an update that makes \<open>mod_a\<close> require \<open>mod_b\<close> is accepted (the check
  reads the stored prerequisites of \<open>mod_a\<close>); in the collection it leaves behind, \<open>mod_a\<close>
  and \<open>mod_b\<close> require each other, yet the check for \<open>[mod_a]\<close> returns false (for
  \<open>[mod_a, mod_b]\<close> it returns true) and a module with the prerequisite \<open>mod_a\<close> is
  created.
\<close>

theorem checkCircularDependency_misses_cycle:
  "updateModule [] [ex_module mod_a dep1 usr1 [], ex_module mod_b dep1 usr1 [mod_a]]
       (ex_user usr1 ''Admin'' None) mod_a (ex_update_body [mod_b])
     = (Success 200 (Some (ex_module mod_a dep1 usr1 [mod_b])),
        [ex_module mod_a dep1 usr1 [mod_b], ex_module mod_b dep1 usr1 [mod_a]])
   \<and> prereq_edge [ex_module mod_a dep1 usr1 [mod_b], ex_module mod_b dep1 usr1 [mod_a]]
     mod_a mod_b
   \<and> prereq_edge [ex_module mod_a dep1 usr1 [mod_b], ex_module mod_b dep1 usr1 [mod_a]]
     mod_b mod_a
   \<and> checkCircularDependency
       [ex_module mod_a dep1 usr1 [mod_b], ex_module mod_b dep1 usr1 [mod_a]] dep1 [mod_a]
     = False
   \<and> checkCircularDependency
       [ex_module mod_a dep1 usr1 [mod_b], ex_module mod_b dep1 usr1 [mod_a]] dep1
       [mod_a, mod_b]
     = True
   \<and> fst (createModule [\<lparr>dep_id = dep1, dep_isActive = True\<rparr>] []
            [ex_module mod_a dep1 usr1 [mod_b], ex_module mod_b dep1 usr1 [mod_a]]
            (ex_user usr1 ''Admin'' None) mod_c 7 (ex_body dep1 [mod_a]))
     = Success 201
         ((ex_module mod_c dep1 usr1 [mod_a])
            \<lparr>m_title := ''Graphs'', m_groups := [], m_questions := [], m_createdAt := 7\<rparr>)"
  by (simp add: prereq_edge_def createModule_def createModuleValidation_def
      updateModule_def updateModuleValidation_def apply_updateData_def find_for_change_def
      findById_def checkCircularDependency_def or_default_def trim_def is_space_def
      ex_body_def ex_update_body_def ex_user_def ex_module_def example_ids isMongoId_def
      is_hex_def Let_def)


subsection \<open>Notices\<close>

text \<open>
  Claim C7. For every user with role Admin, HOD or Teacher, every notice returned by
  GET /api/notices with \<open>unread=true\<close> has no readBy entry whose user is the requesting
  user.
\<close>

theorem unread_listing_excludes_read:
  assumes role: "u_role user \<in> {''Admin'', ''HOD'', ''Teacher''}"
    and unread: "np_unread p = Some ''true''"
    and res: "listNotices rx now db byUser user p = Success c ns"
    and mem: "n \<in> set ns"
  shows "\<not> list_ex (\<lambda>readEntry. re_user readEntry = u_id user) (n_readBy n)"
proof -
  from role have r: "\<not> u_role user \<notin> set [''Admin'', ''HOD'', ''Teacher'']" by simp
  from res r unread obtain page where "ns = filter (\<lambda>n. \<not> read_by user n) page"
    by (auto simp: listNotices_def Let_def split: if_splits)
  with mem have "\<not> read_by user n" by simp
  then show ?thesis by (simp add: read_by_def)
qed

theorem unread_listing_excludes_read_witness:
  "u_role (ex_user usr1 ''Teacher'' None) \<in> {''Admin'', ''HOD'', ''Teacher''}
   \<and> np_unread ex_notice_params = Some ''true''
   \<and> listNotices no_rx 5 [ex_notice ntc1 [usr1], ex_notice ntc2 [usr2]] []
        (ex_user usr1 ''Teacher'' None) ex_notice_params
      = Success 200 [ex_notice ntc2 [usr2]]
   \<and> \<not> list_ex (\<lambda>readEntry. re_user readEntry = u_id (ex_user usr1 ''Teacher'' None))
         (n_readBy (ex_notice ntc2 [usr2]))"
proof -
  have r: "u_role (ex_user usr1 ''Teacher'' None) \<in> {''Admin'', ''HOD'', ''Teacher''}"
    by (simp add: ex_user_def)
  have u: "np_unread ex_notice_params = Some ''true''" by (simp add: ex_notice_params_def)
  have l: "listNotices no_rx 5 [ex_notice ntc1 [usr1], ex_notice ntc2 [usr2]] []
        (ex_user usr1 ''Teacher'' None) ex_notice_params
      = Success 200 [ex_notice ntc2 [usr2]]"
    by (simp add: listNotices_def notice_list_query_def notice_matches_def mongo_page_def
        sort_notices_def read_by_def truthy_def ex_user_def ex_notice_def
        ex_notice_params_def example_ids Let_def)
  have m: "ex_notice ntc2 [usr2] \<in> set [ex_notice ntc2 [usr2]]" by simp
  from unread_listing_excludes_read [OF r u l m] r u l show ?thesis by simp
qed

lemma validation_targetType:
  "createNoticeValidation now b \<Longrightarrow>
     nb_targetType b \<in> Some ` {''all'', ''department'', ''group'', ''role''}"
  by (cases "nb_targetType b") (auto simp: createNoticeValidation_def)

text \<open>
  Claim C6. Creating a notice requires targetType to be one of \<open>all\<close>, \<open>department\<close>,
  \<open>group\<close>, \<open>role\<close>; and the request is rejected with HTTP 400, with no notice persisted,
  when targetType is \<open>department\<close> with no department given, \<open>group\<close> with an empty groups
  list, or \<open>role\<close> with an empty targetRoles list.
\<close>

theorem createNotice_targeting:
  "(nb_targetType b \<notin> Some ` {''all'', ''department'', ''group'', ''role''}
      \<longrightarrow> createNotice ddb gdb ndb user newId now b = (Failure 400 ''Validation failed'', ndb))
   \<and> ((nb_targetType b = Some ''department'' \<and> \<not> truthy (nb_department b))
       \<or> (nb_targetType b = Some ''group'' \<and> or_default (nb_groups b) [] = [])
       \<or> (nb_targetType b = Some ''role'' \<and> or_default (nb_targetRoles b) [] = [])
      \<longrightarrow> (\<exists>msg. createNotice ddb gdb ndb user newId now b = (Failure 400 msg, ndb)))"
proof (intro conjI impI)
  assume "nb_targetType b \<notin> Some ` {''all'', ''department'', ''group'', ''role''}"
  with validation_targetType [of now b] have "\<not> createNoticeValidation now b" by blast
  then show "createNotice ddb gdb ndb user newId now b = (Failure 400 ''Validation failed'', ndb)"
    by (simp add: createNotice_def)
next
  assume t: "(nb_targetType b = Some ''department'' \<and> \<not> truthy (nb_department b))
       \<or> (nb_targetType b = Some ''group'' \<and> or_default (nb_groups b) [] = [])
       \<or> (nb_targetType b = Some ''role'' \<and> or_default (nb_targetRoles b) [] = [])"
  show "\<exists>msg. createNotice ddb gdb ndb user newId now b = (Failure 400 msg, ndb)"
  proof (cases "createNoticeValidation now b")
    case False
    then show ?thesis by (simp add: createNotice_def)
  next
    case True
    then obtain title content where f: "nb_title b = Some title" "nb_content b = Some content"
      by (cases "nb_title b"; cases "nb_content b") (auto simp: createNoticeValidation_def)
    from t f True show ?thesis
      by (auto simp: createNotice_def Let_def)
  qed
qed

theorem createNotice_targeting_witness:
  "nb_targetType (ex_notice_body ''group'') = Some ''group''
   \<and> or_default (nb_groups (ex_notice_body ''group'')) [] = []
   \<and> createNotice [] [] [ex_notice ntc1 []] (ex_user usr1 ''Admin'' None) ntc2 5
        (ex_notice_body ''group'')
      = (Failure 400 ''At least one group is required for group-specific notices'',
         [ex_notice ntc1 []])
   \<and> createNotice [] [] [ex_notice ntc1 []] (ex_user usr1 ''Admin'' None) ntc2 5
        (ex_notice_body ''everyone'')
      = (Failure 400 ''Validation failed'', [ex_notice ntc1 []])
   \<and> createNotice [] [] [ex_notice ntc1 []] (ex_user usr1 ''Admin'' None) ntc2 5
        (ex_notice_body ''all'')
      = (Success 201
           ((ex_notice ntc2 [])\<lparr>n_title := ''Exam'', n_content := ''Monday'', n_createdAt := 5\<rparr>),
         [ex_notice ntc1 [],
          (ex_notice ntc2 [])\<lparr>n_title := ''Exam'', n_content := ''Monday'', n_createdAt := 5\<rparr>])"
proof -
  have t: "nb_targetType (ex_notice_body ''group'') = Some ''group''
      \<and> or_default (nb_groups (ex_notice_body ''group'')) [] = []"
    by (simp add: ex_notice_body_def or_default_def)
  have r: "createNotice [] [] [ex_notice ntc1 []] (ex_user usr1 ''Admin'' None) ntc2 5
        (ex_notice_body ''group'')
      = (Failure 400 ''At least one group is required for group-specific notices'',
         [ex_notice ntc1 []])"
    by (simp add: createNotice_def createNoticeValidation_def ex_notice_body_def
        or_default_def truthy_def trim_def is_space_def Let_def)
  have e: "createNotice [] [] [ex_notice ntc1 []] (ex_user usr1 ''Admin'' None) ntc2 5
        (ex_notice_body ''everyone'')
      = (Failure 400 ''Validation failed'', [ex_notice ntc1 []])"
    by (simp add: createNotice_def createNoticeValidation_def ex_notice_body_def
        trim_def is_space_def)
  have c: "createNotice [] [] [ex_notice ntc1 []] (ex_user usr1 ''Admin'' None) ntc2 5
        (ex_notice_body ''all'')
      = (Success 201
           ((ex_notice ntc2 [])\<lparr>n_title := ''Exam'', n_content := ''Monday'', n_createdAt := 5\<rparr>),
         [ex_notice ntc1 [],
          (ex_notice ntc2 [])\<lparr>n_title := ''Exam'', n_content := ''Monday'', n_createdAt := 5\<rparr>])"
    by (simp add: createNotice_def createNoticeValidation_def department_check_def
        groups_check_def ex_notice_body_def ex_notice_def ex_user_def or_default_def
        truthy_def trim_def is_space_def Let_def)
  from createNotice_targeting [of "ex_notice_body ''group''" "[]" "[]" "[ex_notice ntc1 []]"
      "ex_user usr1 ''Admin'' None" ntc2 5] t r e c
  show ?thesis by simp
qed

end
